theory Spec2Isabelle
  imports Complex_Main "HOL-Library.Multiset"
begin

section \<open>The quiz session of \<open>src/index.tsx\<close>\<close>

text \<open>
  The component \<open>App\<close> keeps one \<open>GameState\<close> value in a React state cell and changes it
  only through \<open>setState\<close> with an updater from the previous session to the next. Every
  updater of the source is a function on \<open>GameState\<close> here; every handler returns the
  updater it queues together with the other effects it has (speech, timers), and an
  exception thrown by a handler is a value of \<open>js_error\<close>.

  JavaScript numbers are modelled as unbounded integers: \<open>score\<close>, \<open>streak\<close> and
  \<open>currentIndex\<close> only ever hold integers that are produced by adding small constants,
  and on integers below \<open>2^53\<close> the arithmetic of the source is exact. Strings are
  \<open>string\<close>; the only operations the source applies to them are \<open>===\<close> and the
  truthiness test, for which the empty string is falsy.
\<close>

subsection \<open>Types (lines 6-22)\<close>

record Question =
  character :: string
  zhuyin :: string
  meaning :: string
  distractors :: "string list"

datatype Screen = Menu | Loading | Playing | GameOver | Error

record GameState =
  screen :: Screen
  score :: int
  streak :: int
  questions :: "Question list"
  currentIndex :: int
  lastAnswerCorrect :: "bool option"
  selectedOption :: "string option"
  errorMessage :: string

datatype js_error = TypeError | SyntaxError | NoData | RequestFailed

text \<open>The argument of \<open>useState\<close> (lines 39-48).\<close>

definition initialState :: GameState where
  "initialState =
     \<lparr>screen = Menu, score = 0, streak = 0, questions = [], currentIndex = 0,
      lastAnswerCorrect = None, selectedOption = None, errorMessage = []\<rparr>"

subsection \<open>JavaScript primitives the handlers rely on\<close>

text \<open>
  Truthiness of a value of type \<open>string | null\<close> (also \<open>string | undefined\<close>): \<open>null\<close>,
  \<open>undefined\<close> and the empty string are falsy, every other string is truthy.
\<close>

fun truthy :: "string option \<Rightarrow> bool" where
  "truthy None = False"
| "truthy (Some s) = (s \<noteq> [])"

text \<open>
  Array indexing \<open>xs[i]\<close>: \<open>undefined\<close> (here \<open>None\<close>) outside \<open>0 \<le> i < xs.length\<close>.
\<close>

definition index_at :: "'a list \<Rightarrow> int \<Rightarrow> 'a option" where
  "index_at xs i = (if 0 \<le> i \<and> i < int (length xs) then Some (xs ! nat i) else None)"

text \<open>\<open>state.questions[state.currentIndex]\<close> (lines 129, 167, 168, 237).\<close>

definition current_question :: "GameState \<Rightarrow> Question option" where
  "current_question state = index_at (questions state) (currentIndex state)"

subsection \<open>\<open>handleAnswer\<close> (lines 126-161)\<close>

text \<open>The updater passed to \<open>setState\<close> at lines 137-143.\<close>

definition answered :: "string \<Rightarrow> bool \<Rightarrow> GameState \<Rightarrow> GameState" where
  "answered opt isCorrect prev =
     prev\<lparr>selectedOption := Some opt,
          lastAnswerCorrect := Some isCorrect,
          score := (if isCorrect then score prev + 10 + streak prev * 2 else score prev),
          streak := (if isCorrect then streak prev + 1 else 0)\<rparr>"

text \<open>
  The callback given to \<open>setTimeout\<close> (lines 146-160). The test reads \<open>state\<close>, the
  value the handler closed over when the answer was given; the two updaters act on
  \<open>prev\<close>, the session at the moment the timer fires. Nothing else is tested.
\<close>

definition advance :: "GameState \<Rightarrow> GameState \<Rightarrow> GameState" where
  "advance state prev =
     (if currentIndex state < int (length (questions state)) - 1
      then prev\<lparr>currentIndex := currentIndex prev + 1,
                selectedOption := None,
                lastAnswerCorrect := None\<rparr>
      else prev\<lparr>screen := GameOver\<rparr>)"

text \<open>
  What one call of \<open>handleAnswer\<close> does besides returning: the texts handed to
  \<open>speakCharacter\<close>, the updater queued with \<open>setState\<close>, and the timers started with
  \<open>setTimeout\<close>, each as its delay in milliseconds and the \<open>state\<close> its callback
  captured (the callback is \<open>advance\<close> of that state).
\<close>

record effects =
  spoken :: "string list"
  update :: "GameState \<Rightarrow> GameState"
  timeouts :: "(nat \<times> GameState) list"

definition no_effects :: effects where
  "no_effects = \<lparr>spoken = [], update = (\<lambda>prev. prev), timeouts = []\<rparr>"

text \<open>
  \<open>handleAnswer\<close> itself. \<open>state\<close> is the render's snapshot the handler closes over.
  The guard of line 127 is a truthiness test of \<open>state.selectedOption\<close>; there is no
  test of \<open>state.screen\<close>. When \<open>state.questions[state.currentIndex]\<close> is \<open>undefined\<close>,
  reading \<open>currentQ.zhuyin\<close> at line 130 throws a \<open>TypeError\<close> before any effect.
\<close>

definition handleAnswer :: "GameState \<Rightarrow> string \<Rightarrow> js_error + effects" where
  "handleAnswer state opt =
     (if truthy (selectedOption state) then Inr no_effects
      else case current_question state of
             None \<Rightarrow> Inl TypeError
           | Some currentQ \<Rightarrow>
               (let isCorrect = (opt = zhuyin currentQ)
                in Inr \<lparr>spoken = (if isCorrect then [character currentQ] else []),
                        update = answered opt isCorrect,
                        timeouts = [(if isCorrect then 1500 else 2500, state)]\<rparr>))"

text \<open>
  A click on an option button of the current render: the handler's \<open>state\<close> is the
  session as rendered, and React applies the queued updater to that same session. The
  result is the session after the click and the timers the click started.
\<close>

definition answer :: "GameState \<Rightarrow> string \<Rightarrow> js_error + GameState \<times> (nat \<times> GameState) list" where
  "answer st opt =
     (case handleAnswer st opt of
        Inl e \<Rightarrow> Inl e
      | Inr fx \<Rightarrow> Inr (update fx st, timeouts fx))"

text \<open>The \<open>onClick\<close> of the buttons of the error and game-over screens (lines 226, 335).\<close>

definition restart :: "GameState \<Rightarrow> GameState" where
  "restart prev = prev\<lparr>screen := Menu\<rparr>"

subsection \<open>\<open>generateQuestions\<close> (lines 50-115)\<close>

text \<open>
  The string literal of line 112, byte by byte as the source file stores it.
\<close>

definition failureMessage :: string where
  "failureMessage =
    [CHR 0xC3, CHR 0xA7, CHR 0xE2, CHR 0x80, CHR 0x9D, CHR 0xC5, CHR 0xB8, CHR 0xC3,
     CHR 0xA6, CHR 0xCB, CHR 0x86, CHR 0xC3, CHR 0xA9, CHR 0xC2, CHR 0xA1, CHR 0xC5,
     CHR 0x92, CHR 0xC3, CHR 0xA7, CHR 0xE2, CHR 0x80, CHR 0xBA, CHR 0xC2, CHR 0xAE,
     CHR 0xC3, CHR 0xA5, CHR 0xC2, CHR 0xA4, CHR 0xC2, CHR 0xB1, CHR 0xC3, CHR 0xA6,
     CHR 0xE2, CHR 0x80, CHR 0xA2, CHR 0xE2, CHR 0x80, CHR 0x94, CHR 0xC3, CHR 0xAF,
     CHR 0xC2, CHR 0xBC, CHR 0xC5, CHR 0x92, CHR 0xC3, CHR 0xA8, CHR 0xC2, CHR 0xAB,
     CHR 0xE2, CHR 0x80, CHR 0xB9, CHR 0xC3, CHR 0xA6, CHR 0xC2, CHR 0xAA, CHR 0xC2,
     CHR 0xA2, CHR 0xC3, CHR 0xA6, CHR 0xC5, CHR 0xB8, CHR 0xC2, CHR 0xA5, CHR 0xC3,
     CHR 0xA7, CHR 0xC2, CHR 0xB6, CHR 0xC2, CHR 0xB2, CHR 0xC3, CHR 0xA8, CHR 0xC2,
     CHR 0xB7, CHR 0xC2, CHR 0xAF, CHR 0xC3, CHR 0xA9, CHR 0xE2, CHR 0x82, CHR 0xAC,
     CHR 0xC2, CHR 0xA3, CHR 0xC3, CHR 0xA7, CHR 0xC2, CHR 0xB7, CHR 0xC5, CHR 0xA1,
     CHR 0xC3, CHR 0xA5, CHR 0xC2, CHR 0xBE, CHR 0xC5, CHR 0x92, CHR 0xC3, CHR 0xA9,
     CHR 0xE2, CHR 0x80, CHR 0xA1, CHR 0xC3, CHR 0xA8, CHR 0xC2, CHR 0xA9, CHR 0xC2,
     CHR 0xA6, CHR 0xC3, CHR 0xA3, CHR 0xE2, CHR 0x82, CHR 0xAC, CHR 0xE2, CHR 0x80,
     CHR 0x9A]"

text \<open>
  What \<open>await ai.models.generateContent(...)\<close> comes back with: the promise is rejected
  and the \<open>await\<close> throws (\<open>Rejected\<close>, which also stands for an exception of the
  constructor of line 54), or it yields a response whose \<open>text\<close> is a string or
  \<open>undefined\<close>. The request itself (the prompt built from \<open>level\<close>) goes to the external
  service and does not touch the session.
\<close>

datatype reply = Rejected | Replied "string option"

text \<open>
  The body of the \<open>try\<close> after the \<open>await\<close> (lines 91-94), up to the value it hands to
  the success updater; \<open>Inl\<close> is an exception, which the \<open>catch\<close> of line 107 receives.
  \<open>JSON.parse\<close> is the parameter \<open>parse\<close>, with \<open>None\<close> for the \<open>SyntaxError\<close> it throws;
  its result is used at the type \<open>Question[]\<close> the source declares for it.
\<close>

definition try_body :: "(string \<Rightarrow> Question list option) \<Rightarrow> reply \<Rightarrow> js_error + Question list" where
  "try_body parse r =
     (case r of
        Rejected \<Rightarrow> Inl RequestFailed
      | Replied None \<Rightarrow> Inl NoData
      | Replied (Some jsonText) \<Rightarrow>
          (if \<not> truthy (Some jsonText) then Inl NoData
           else case parse jsonText of
                  None \<Rightarrow> Inl SyntaxError
                | Some qs \<Rightarrow> Inr qs))"

text \<open>The three updaters of \<open>generateQuestions\<close>: lines 51, 96-105 and 109-113.\<close>

definition generate_begin :: "GameState \<Rightarrow> GameState" where
  "generate_begin prev = prev\<lparr>screen := Loading, errorMessage := []\<rparr>"

definition generate_succeeded :: "Question list \<Rightarrow> GameState \<Rightarrow> GameState" where
  "generate_succeeded qs prev =
     prev\<lparr>screen := Playing, questions := qs, currentIndex := 0, score := 0, streak := 0,
          lastAnswerCorrect := None, selectedOption := None\<rparr>"

definition generate_failed :: "GameState \<Rightarrow> GameState" where
  "generate_failed prev = prev\<lparr>screen := Error, errorMessage := failureMessage\<rparr>"

text \<open>
  The continuation of \<open>generateQuestions\<close> after the \<open>await\<close>: it runs when the reply
  arrives, on the session as it is then (\<open>prev\<close>). No request token is compared.
\<close>

definition generate_settle :: "(string \<Rightarrow> Question list option) \<Rightarrow> reply \<Rightarrow> GameState \<Rightarrow> GameState" where
  "generate_settle parse r prev =
     (case try_body parse r of
        Inr qs \<Rightarrow> generate_succeeded qs prev
      | Inl e \<Rightarrow> generate_failed prev)"

text \<open>One whole call with nothing else happening between the request and its reply.\<close>

definition generateQuestions :: "(string \<Rightarrow> Question list option) \<Rightarrow> reply \<Rightarrow> GameState \<Rightarrow> GameState" where
  "generateQuestions parse r st = generate_settle parse r (generate_begin st)"

subsection \<open>The shuffle effect (lines 164-177)\<close>

text \<open>\<open>[all[i], all[j]] = [all[j], all[i]]\<close>: both reads happen before the two writes.\<close>

definition swap :: "nat \<Rightarrow> nat \<Rightarrow> 'a list \<Rightarrow> 'a list" where
  "swap i j all = all[i := all ! j, j := all ! i]"

text \<open>
  The loop of lines 171-174, entered with \<open>i\<close>. \<open>random k\<close> is the value of the \<open>k\<close>-th
  call of \<open>Math.random()\<close> made by this shuffle, a number with \<open>0 \<le> random k < 1\<close>. The
  product is taken over the reals; every index \<open>j\<close> with \<open>0 \<le> j \<le> i\<close>, which is all the
  floating-point product can give, is the result for some such value.
\<close>

fun shuffle_from :: "(nat \<Rightarrow> real) \<Rightarrow> nat \<Rightarrow> nat \<Rightarrow> 'a list \<Rightarrow> 'a list" where
  "shuffle_from random k 0 all = all"
| "shuffle_from random k (Suc n) all =
     (let i = Suc n;
          j = nat \<lfloor>random k * (real i + 1)\<rfloor>
      in shuffle_from random (Suc k) n (swap i j all))"

definition shuffle :: "(nat \<Rightarrow> real) \<Rightarrow> Question \<Rightarrow> string list" where
  "shuffle random q =
     (let all = distractors q @ [zhuyin q]
      in shuffle_from random 0 (length all - 1) all)"

text \<open>
  The effect: the new value of the state cell \<open>shuffledOptions\<close>, which stays as it is
  when the condition of line 167 fails.
\<close>

definition shuffle_effect :: "(nat \<Rightarrow> real) \<Rightarrow> GameState \<Rightarrow> string list \<Rightarrow> string list" where
  "shuffle_effect random state shuffledOptions =
     (if screen state = Playing
      then (case current_question state of
              Some q \<Rightarrow> shuffle random q
            | None \<Rightarrow> shuffledOptions)
      else shuffledOptions)"

subsection \<open>Sample data\<close>

text \<open>
  A session of two questions, the second of which has the empty string among its
  distractors: as generated (\<open>sample_start\<close>), after the first question was answered
  right and the timer advanced (\<open>sample_second\<close>), after the empty option was then chosen
  (\<open>sample_blank\<close>), and that session back on the menu (\<open>sample_menu\<close>).
\<close>

definition sample_q1 :: Question where
  "sample_q1 = \<lparr>character = ''A'', zhuyin = ''a'', meaning = ''first'', distractors = [''b'', ''c'', ''d'']\<rparr>"

definition sample_q2 :: Question where
  "sample_q2 = \<lparr>character = ''E'', zhuyin = ''e'', meaning = ''second'', distractors = ['''', ''f'', ''g'']\<rparr>"

definition sample_start :: GameState where
  "sample_start =
     \<lparr>screen = Playing, score = 0, streak = 0, questions = [sample_q1, sample_q2],
      currentIndex = 0, lastAnswerCorrect = None, selectedOption = None, errorMessage = []\<rparr>"

definition sample_second :: GameState where
  "sample_second =
     \<lparr>screen = Playing, score = 10, streak = 1, questions = [sample_q1, sample_q2],
      currentIndex = 1, lastAnswerCorrect = None, selectedOption = None, errorMessage = []\<rparr>"

definition sample_blank :: GameState where
  "sample_blank =
     \<lparr>screen = Playing, score = 10, streak = 0, questions = [sample_q1, sample_q2],
      currentIndex = 1, lastAnswerCorrect = Some False, selectedOption = Some [], errorMessage = []\<rparr>"

definition sample_menu :: GameState where
  "sample_menu =
     \<lparr>screen = Menu, score = 10, streak = 0, questions = [sample_q1, sample_q2],
      currentIndex = 1, lastAnswerCorrect = Some False, selectedOption = Some [], errorMessage = []\<rparr>"

definition sample_parse :: "string \<Rightarrow> Question list option" where
  "sample_parse jsonText =
     (if jsonText = ''[1]'' then Some [sample_q1]
      else if jsonText = ''[2]'' then Some [sample_q2]
      else None)"

section \<open>Properties\<close>

subsection \<open>The sample sessions\<close>

lemma sample_questions:
  "current_question sample_start = Some sample_q1"
  "current_question sample_second = Some sample_q2"
  "current_question sample_blank = Some sample_q2"
  by (simp_all add: current_question_def index_at_def sample_start_def sample_second_def
      sample_blank_def)

subsection \<open>Answering\<close>

text \<open>The three ways a click on an option can go.\<close>

lemma answer_unlocked:
  "\<not> truthy (selectedOption st) \<Longrightarrow> current_question st = Some q \<Longrightarrow>
   answer st opt =
     Inr (answered opt (opt = zhuyin q) st, [(if opt = zhuyin q then 1500 else 2500, st)])"
  by (simp add: answer_def handleAnswer_def Let_def)

lemma answer_locked:
  "truthy (selectedOption st) \<Longrightarrow> answer st opt = Inr (st, [])"
  by (simp add: answer_def handleAnswer_def no_effects_def)

lemma answer_undefined_question:
  "\<not> truthy (selectedOption st) \<Longrightarrow> current_question st = None \<Longrightarrow> answer st opt = Inl TypeError"
  by (simp add: answer_def handleAnswer_def)

text \<open>
  C1. In a session whose screen is \<open>Playing\<close> and whose \<open>selectedOption\<close> is unset,
  answering with the \<open>zhuyin\<close> of the current question succeeds, adds \<open>10 + 2 * streak\<close>
  to \<open>score\<close> with the streak as it was before the answer, adds 1 to \<open>streak\<close>, stores
  the option in \<open>selectedOption\<close> and sets \<open>lastAnswerCorrect\<close> to true.
\<close>

theorem answer_correct:
  assumes "screen st = Playing" and "selectedOption st = None"
    and "current_question st = Some q" and "opt = zhuyin q"
  shows "case answer st opt of
           Inl e \<Rightarrow> False
         | Inr (st', timers) \<Rightarrow>
             score st' = score st + (10 + 2 * streak st) \<and> streak st' = streak st + 1 \<and>
             selectedOption st' = Some opt \<and> lastAnswerCorrect st' = Some True"
  using assms by (simp add: answer_unlocked answered_def)

text \<open>
  On the second question of the sample session, with one right answer behind it: the
  score goes from 10 to 22 and the streak from 1 to 2.
\<close>

theorem answer_correct_witness:
  "screen sample_second = Playing \<and> selectedOption sample_second = None \<and>
   current_question sample_second = Some sample_q2 \<and> ''e'' = zhuyin sample_q2 \<and>
   (case answer sample_second ''e'' of
      Inl e \<Rightarrow> False
    | Inr (st', timers) \<Rightarrow>
        score st' = 22 \<and> streak st' = 2 \<and>
        selectedOption st' = Some ''e'' \<and> lastAnswerCorrect st' = Some True)"
proof -
  have h: "screen sample_second = Playing" "selectedOption sample_second = None"
    "current_question sample_second = Some sample_q2" "''e'' = zhuyin sample_q2"
    by (simp_all add: sample_questions) (simp_all add: sample_second_def sample_q2_def)
  have r: "answer sample_second ''e'' = Inr (answered ''e'' True sample_second, [(1500, sample_second)])"
    by (simp add: answer_unlocked [OF _ h(3)] h(2)) (simp add: sample_q2_def)
  show ?thesis
    using answer_correct [OF h] by (simp add: h(1-3) r) (simp add: sample_second_def sample_q2_def)
qed

text \<open>
  C2. In a session whose screen is \<open>Playing\<close> and whose \<open>selectedOption\<close> is unset,
  answering with an option other than the \<open>zhuyin\<close> of the current question succeeds,
  leaves \<open>score\<close> as it was, sets \<open>streak\<close> to 0 and \<open>lastAnswerCorrect\<close> to false, and
  stores the wrong option in \<open>selectedOption\<close>.
\<close>

theorem answer_wrong:
  assumes "screen st = Playing" and "selectedOption st = None"
    and "current_question st = Some q" and "opt \<noteq> zhuyin q"
  shows "case answer st opt of
           Inl e \<Rightarrow> False
         | Inr (st', timers) \<Rightarrow>
             score st' = score st \<and> streak st' = 0 \<and>
             lastAnswerCorrect st' = Some False \<and> selectedOption st' = Some opt"
  using assms by (simp add: answer_unlocked answered_def)

text \<open>The same sample session answered with a distractor.\<close>

theorem answer_wrong_witness:
  "screen sample_second = Playing \<and> selectedOption sample_second = None \<and>
   current_question sample_second = Some sample_q2 \<and> ''f'' \<noteq> zhuyin sample_q2 \<and>
   (case answer sample_second ''f'' of
      Inl e \<Rightarrow> False
    | Inr (st', timers) \<Rightarrow>
        score st' = 10 \<and> streak st' = 0 \<and>
        lastAnswerCorrect st' = Some False \<and> selectedOption st' = Some ''f'')"
proof -
  have h: "screen sample_second = Playing" "selectedOption sample_second = None"
    "current_question sample_second = Some sample_q2" "''f'' \<noteq> zhuyin sample_q2"
    by (simp_all add: sample_questions) (simp_all add: sample_second_def sample_q2_def)
  have r: "answer sample_second ''f'' = Inr (answered ''f'' False sample_second, [(2500, sample_second)])"
    by (simp add: answer_unlocked [OF _ h(3)] h(2)) (simp add: sample_q2_def)
  show ?thesis
    using answer_wrong [OF h] by (simp add: h(1-3) r) (simp add: sample_second_def sample_q2_def)
qed

text \<open>
  C3, as stated, fails: the handler does not look at \<open>screen\<close>. In the initial session
  (menu screen, no selection, no questions) a call of \<open>handleAnswer\<close> reads
  \<open>currentQ.zhuyin\<close> of an undefined question and throws.
\<close>

theorem answer_off_screen_counterexample:
  "screen initialState \<noteq> Playing \<and> selectedOption initialState = None \<and>
   answer initialState ''a'' = Inl TypeError"
  by (simp add: answer_def handleAnswer_def current_question_def index_at_def initialState_def)

text \<open>
  C3, amended. What the guard of line 127 gives: while \<open>selectedOption\<close> holds a non-empty
  string, a call of \<open>handleAnswer\<close> with any option, on any screen, has no effect at all
  (nothing spoken, the identity updater, no timer), throws nothing, and leaves the whole
  session as it is.
\<close>

theorem answer_locked_noop:
  assumes "selectedOption st = Some s" and "s \<noteq> []"
  shows "handleAnswer st opt = Inr no_effects \<and> answer st opt = Inr (st, [])"
  using assms by (simp add: answer_locked) (simp add: handleAnswer_def)

text \<open>The sample session after a wrong answer \<open>f\<close> ignores a following answer \<open>e\<close>.\<close>

theorem answer_locked_noop_witness:
  "selectedOption (answered ''f'' False sample_second) = Some ''f'' \<and> ''f'' \<noteq> [] \<and>
   screen (answered ''f'' False sample_second) = Playing \<and>
   handleAnswer (answered ''f'' False sample_second) ''e'' = Inr no_effects \<and>
   answer (answered ''f'' False sample_second) ''e'' = Inr (answered ''f'' False sample_second, [])"
proof -
  have h: "selectedOption (answered ''f'' False sample_second) = Some ''f''" "''f'' \<noteq> []"
    by (simp_all add: answered_def)
  from answer_locked_noop [OF h] show ?thesis
    using h by (simp add: answered_def sample_second_def)
qed

subsection \<open>The shuffle\<close>

lemma length_swap: "length (swap i j xs) = length xs"
  by (simp add: swap_def)

lemma mset_swap_in_range:
  "i < length xs \<Longrightarrow> j < length xs \<Longrightarrow> mset (swap i j xs) = mset xs"
  unfolding swap_def by (rule mset_swap)

lemma random_index_le:
  assumes "0 \<le> r" and "r < 1"
  shows "nat \<lfloor>r * (real i + 1)\<rfloor> \<le> i"
proof -
  have "r * (real i + 1) < real i + 1"
    using assms by (simp add: mult_less_cancel_right2 add_pos_nonneg)
  then have "\<lfloor>r * (real i + 1)\<rfloor> \<le> int i"
    unfolding floor_le_iff by simp
  then show ?thesis
    by (simp only: nat_le_iff)
qed

lemma mset_shuffle_from:
  assumes "\<forall>k. 0 \<le> random k \<and> random k < 1"
  shows "n < length xs \<Longrightarrow> mset (shuffle_from random k n xs) = mset xs"
proof (induction n arbitrary: k xs)
  case 0
  show ?case by simp
next
  case (Suc n)
  let ?j = "nat \<lfloor>random k * (real (Suc n) + 1)\<rfloor>"
  have "?j \<le> Suc n"
    using assms by (intro random_index_le) auto
  with Suc.prems have j: "?j < length xs"
    by simp
  have "mset (shuffle_from random (Suc k) n (swap (Suc n) ?j xs)) = mset (swap (Suc n) ?j xs)"
    using Suc.prems by (intro Suc.IH) (simp add: length_swap)
  also have "\<dots> = mset xs"
    using Suc.prems j by (rule mset_swap_in_range)
  finally show ?case
    by (simp add: Let_def)
qed

text \<open>
  C6. For every question shown (the screen is \<open>Playing\<close> and the current question
  exists), the options the effect computes are a permutation of the question's
  distractors followed by its \<open>zhuyin\<close>: the same elements with the same multiplicities,
  whatever values \<open>Math.random()\<close> returns within its range \<open>0 \<le> r < 1\<close>.
\<close>

theorem shuffled_options_permutation:
  assumes "screen st = Playing" and "current_question st = Some q"
    and "\<forall>k. 0 \<le> random k \<and> random k < 1"
  shows "mset (shuffle_effect random st shuffledOptions) = mset (distractors q @ [zhuyin q])"
  using assms(1,2) by (simp add: shuffle_effect_def shuffle_def Let_def mset_shuffle_from [OF assms(3)])

text \<open>
  With every random value \<open>1/2\<close> the first sample question's options \<open>b, c, d, a\<close> come
  out as \<open>b, a, c, d\<close>.
\<close>

theorem shuffled_options_permutation_witness:
  "screen sample_start = Playing \<and> current_question sample_start = Some sample_q1 \<and>
   (\<forall>k::nat. (0::real) \<le> 1 / 2 \<and> (1::real) / 2 < 1) \<and>
   shuffle_effect (\<lambda>k. 1 / 2) sample_start [] = [''b'', ''a'', ''c'', ''d''] \<and>
   mset [''b'', ''a'', ''c'', ''d''] = mset (distractors sample_q1 @ [zhuyin sample_q1])"
proof -
  have h: "screen sample_start = Playing" "current_question sample_start = Some sample_q1"
    "\<forall>k::nat. (0::real) \<le> 1 / 2 \<and> (1::real) / 2 < 1"
    by (simp_all add: sample_questions) (simp add: sample_start_def)
  have r: "shuffle_effect (\<lambda>k. 1 / 2) sample_start [] = [''b'', ''a'', ''c'', ''d'']"
    by (simp add: shuffle_effect_def shuffle_def h(1,2) sample_q1_def swap_def numeral_3_eq_3)
  show ?thesis
    using shuffled_options_permutation [OF h, of "[]"] h(1,2) by (simp add: r)
qed

subsection \<open>The timer\<close>

text \<open>
  C7. When the timer fires for a question that was not the last when it was answered
  (\<open>currentIndex < questions.length - 1\<close> in the state the callback captured),
  \<open>currentIndex\<close> of the session grows by exactly 1 and \<open>selectedOption\<close> and
  \<open>lastAnswerCorrect\<close> are cleared; otherwise, so for the last question, the screen
  becomes \<open>GameOver\<close>.
\<close>

theorem advance_fires:
  "(currentIndex state < int (length (questions state)) - 1 \<longrightarrow>
      currentIndex (advance state prev) = currentIndex prev + 1 \<and>
      selectedOption (advance state prev) = None \<and>
      lastAnswerCorrect (advance state prev) = None) \<and>
   (\<not> currentIndex state < int (length (questions state)) - 1 \<longrightarrow>
      screen (advance state prev) = GameOver)"
  by (simp add: advance_def)

text \<open>
  The sample session: the timer of the first question moves on to the second, the timer
  of the second question ends the game.
\<close>

theorem advance_fires_witness:
  "currentIndex sample_start < int (length (questions sample_start)) - 1 \<and>
   currentIndex (answered ''a'' True sample_start) = 0 \<and>
   currentIndex (advance sample_start (answered ''a'' True sample_start)) = 1 \<and>
   selectedOption (advance sample_start (answered ''a'' True sample_start)) = None \<and>
   lastAnswerCorrect (advance sample_start (answered ''a'' True sample_start)) = None \<and>
   \<not> currentIndex sample_second < int (length (questions sample_second)) - 1 \<and>
   screen (advance sample_second (answered ''e'' True sample_second)) = GameOver"
proof -
  have h: "currentIndex sample_start < int (length (questions sample_start)) - 1"
    "\<not> currentIndex sample_second < int (length (questions sample_second)) - 1"
    by (simp_all add: sample_start_def sample_second_def)
  have v: "currentIndex (answered ''a'' True sample_start) = 0"
    by (simp add: answered_def sample_start_def)
  show ?thesis
    using advance_fires [of sample_start "answered ''a'' True sample_start"]
      advance_fires [of sample_second "answered ''e'' True sample_second"] h
    by (simp add: v)
qed

text \<open>
  C4, as stated, fails. On the last question the empty option is clicked twice (the
  empty string does not lock the handler), so two timers are pending. The first ends the
  game, the player goes back to the menu, and then the second timer fires on the session
  that is on the menu screen and changes it.
\<close>

theorem stale_advance_counterexample:
  "answer sample_second [] = Inr (sample_blank, [(2500, sample_second)]) \<and>
   answer sample_blank [] = Inr (sample_blank, [(2500, sample_blank)]) \<and>
   restart (advance sample_second sample_blank) = sample_menu \<and>
   screen sample_menu = Menu \<and>
   advance sample_blank sample_menu \<noteq> sample_menu"
proof -
  have a: "answered [] False sample_second = sample_blank" "answered [] False sample_blank = sample_blank"
    by (simp_all add: answered_def sample_second_def sample_blank_def)
  have t: "\<not> truthy (selectedOption sample_second)" "\<not> truthy (selectedOption sample_blank)"
    by (simp_all add: sample_second_def sample_blank_def)
  have z: "[] \<noteq> zhuyin sample_q2"
    by (simp add: sample_q2_def)
  have 1: "answer sample_second [] = Inr (sample_blank, [(2500, sample_second)])"
    using answer_unlocked [OF t(1) sample_questions(2), of "[]"] z by (simp add: a)
  have 2: "answer sample_blank [] = Inr (sample_blank, [(2500, sample_blank)])"
    using answer_unlocked [OF t(2) sample_questions(3), of "[]"] z by (simp add: a)
  have 3: "restart (advance sample_second sample_blank) = sample_menu"
    by (simp add: restart_def advance_def sample_second_def sample_blank_def sample_menu_def)
  have 4: "screen sample_menu = Menu"
    by (simp add: sample_menu_def)
  have "screen (advance sample_blank sample_menu) = GameOver"
    by (simp add: advance_def sample_blank_def)
  with 4 have 5: "advance sample_blank sample_menu \<noteq> sample_menu"
    by auto
  from 1 2 3 4 5 show ?thesis
    by blast
qed

text \<open>
  C4, amended. The callback has no staleness test: fired on a session that has moved to
  \<open>Menu\<close> or \<open>Loading\<close>, it always changes that session. It sets the screen to
  \<open>GameOver\<close> when the question it was started for was the last one, and otherwise adds 1
  to \<open>currentIndex\<close> and clears \<open>selectedOption\<close> and \<open>lastAnswerCorrect\<close>; \<open>score\<close>,
  \<open>streak\<close>, \<open>questions\<close> and \<open>errorMessage\<close> stay as they are.
\<close>

theorem stale_advance_applies:
  assumes "screen prev = Menu \<or> screen prev = Loading"
  shows "advance state prev \<noteq> prev \<and>
         advance state prev =
           (if currentIndex state < int (length (questions state)) - 1
            then prev\<lparr>currentIndex := currentIndex prev + 1, selectedOption := None,
                      lastAnswerCorrect := None\<rparr>
            else prev\<lparr>screen := GameOver\<rparr>) \<and>
         score (advance state prev) = score prev \<and>
         streak (advance state prev) = streak prev \<and>
         questions (advance state prev) = questions prev \<and>
         errorMessage (advance state prev) = errorMessage prev"
proof -
  have "currentIndex (advance state prev) \<noteq> currentIndex prev \<or>
        screen (advance state prev) \<noteq> screen prev"
    using assms by (auto simp add: advance_def)
  then have "advance state prev \<noteq> prev"
    by auto
  then show ?thesis
    by (simp add: advance_def)
qed

text \<open>The stale timer of the sample run turns the menu into the game-over screen.\<close>

theorem stale_advance_applies_witness:
  "(screen sample_menu = Menu \<or> screen sample_menu = Loading) \<and>
   advance sample_blank sample_menu \<noteq> sample_menu \<and>
   advance sample_blank sample_menu = sample_menu\<lparr>screen := GameOver\<rparr> \<and>
   score (advance sample_blank sample_menu) = 10 \<and>
   streak (advance sample_blank sample_menu) = 0 \<and>
   questions (advance sample_blank sample_menu) = [sample_q1, sample_q2] \<and>
   errorMessage (advance sample_blank sample_menu) = []"
proof -
  have h: "screen sample_menu = Menu \<or> screen sample_menu = Loading"
    by (simp add: sample_menu_def)
  have l: "\<not> currentIndex sample_blank < int (length (questions sample_blank)) - 1"
    by (simp add: sample_blank_def)
  show ?thesis
    using stale_advance_applies [OF h, of sample_blank] h
    by (simp add: l) (simp add: sample_menu_def)
qed

subsection \<open>Fetching the questions\<close>

lemma try_body_fails:
  "r = Rejected \<or> r = Replied None \<or> r = Replied (Some []) \<or>
     (\<exists>jsonText. r = Replied (Some jsonText) \<and> parse jsonText = None) \<Longrightarrow>
   \<exists>e. try_body parse r = Inl e"
  by (auto simp add: try_body_def)

lemma sample_replies:
  "try_body sample_parse (Replied (Some ''[1]'')) = Inr [sample_q1]"
  "try_body sample_parse (Replied (Some ''[2]'')) = Inr [sample_q2]"
  "try_body sample_parse (Replied (Some ''[''))  = Inl SyntaxError"
  by (simp_all add: try_body_def sample_parse_def)

text \<open>
  C8. When the fetch fails (the request is rejected, the response has no text or an
  empty text, or \<open>JSON.parse\<close> throws), a call of \<open>generateQuestions\<close> leaves the session
  as it was before the call except for two fields: the screen is \<open>Error\<close> and
  \<open>errorMessage\<close> is the fixed message. In particular \<open>questions\<close>, \<open>score\<close>, \<open>streak\<close>
  and \<open>currentIndex\<close> keep their values.
\<close>

theorem fetch_failure_atomic:
  assumes "r = Rejected \<or> r = Replied None \<or> r = Replied (Some []) \<or>
           (\<exists>jsonText. r = Replied (Some jsonText) \<and> parse jsonText = None)"
  shows "generateQuestions parse r st = st\<lparr>screen := Error, errorMessage := failureMessage\<rparr>"
proof -
  from try_body_fails [OF assms] obtain e where "try_body parse r = Inl e" ..
  then show ?thesis
    by (simp add: generateQuestions_def generate_settle_def generate_failed_def generate_begin_def)
qed

text \<open>Each of the four failures, starting from the sample session on the menu.\<close>

theorem fetch_failure_atomic_witness:
  "generateQuestions sample_parse Rejected sample_menu =
     sample_menu\<lparr>screen := Error, errorMessage := failureMessage\<rparr> \<and>
   generateQuestions sample_parse (Replied None) sample_menu =
     sample_menu\<lparr>screen := Error, errorMessage := failureMessage\<rparr> \<and>
   generateQuestions sample_parse (Replied (Some [])) sample_menu =
     sample_menu\<lparr>screen := Error, errorMessage := failureMessage\<rparr> \<and>
   sample_parse ''['' = None \<and>
   generateQuestions sample_parse (Replied (Some ''['')) sample_menu =
     sample_menu\<lparr>screen := Error, errorMessage := failureMessage\<rparr> \<and>
   questions (sample_menu\<lparr>screen := Error, errorMessage := failureMessage\<rparr>) = [sample_q1, sample_q2] \<and>
   score (sample_menu\<lparr>screen := Error, errorMessage := failureMessage\<rparr>) = 10"
proof -
  have p: "sample_parse ''['' = None"
    by (simp add: sample_parse_def)
  show ?thesis
    using fetch_failure_atomic [of Rejected sample_parse sample_menu]
      fetch_failure_atomic [of "Replied None" sample_parse sample_menu]
      fetch_failure_atomic [of "Replied (Some [])" sample_parse sample_menu]
      fetch_failure_atomic [of "Replied (Some ''['')" sample_parse sample_menu]
    by (simp add: p) (simp add: sample_menu_def)
qed

text \<open>
  C9. When the fetch succeeds with a list \<open>Q\<close> of at least one question (a non-empty
  response text that \<open>JSON.parse\<close> turns into \<open>Q\<close>), the session becomes: screen
  \<open>Playing\<close>, \<open>questions = Q\<close>, \<open>currentIndex = 0\<close>, \<open>score = 0\<close>, \<open>streak = 0\<close>,
  \<open>selectedOption\<close> unset and \<open>lastAnswerCorrect\<close> unknown, whatever the session was when
  the reply arrived.
\<close>

theorem fetch_success_reinitialises:
  assumes "jsonText \<noteq> []" and "parse jsonText = Some Q" and "1 \<le> length Q"
  shows "screen (generate_settle parse (Replied (Some jsonText)) prev) = Playing \<and>
         questions (generate_settle parse (Replied (Some jsonText)) prev) = Q \<and>
         currentIndex (generate_settle parse (Replied (Some jsonText)) prev) = 0 \<and>
         score (generate_settle parse (Replied (Some jsonText)) prev) = 0 \<and>
         streak (generate_settle parse (Replied (Some jsonText)) prev) = 0 \<and>
         selectedOption (generate_settle parse (Replied (Some jsonText)) prev) = None \<and>
         lastAnswerCorrect (generate_settle parse (Replied (Some jsonText)) prev) = None"
  using assms(1,2) by (simp add: generate_settle_def try_body_def generate_succeeded_def)

text \<open>A new game started from the sample session on the menu.\<close>

theorem fetch_success_reinitialises_witness:
  "''[1]'' \<noteq> [] \<and> sample_parse ''[1]'' = Some [sample_q1] \<and> 1 \<le> length [sample_q1] \<and>
   screen (generateQuestions sample_parse (Replied (Some ''[1]'')) sample_menu) = Playing \<and>
   questions (generateQuestions sample_parse (Replied (Some ''[1]'')) sample_menu) = [sample_q1] \<and>
   currentIndex (generateQuestions sample_parse (Replied (Some ''[1]'')) sample_menu) = 0 \<and>
   score (generateQuestions sample_parse (Replied (Some ''[1]'')) sample_menu) = 0 \<and>
   streak (generateQuestions sample_parse (Replied (Some ''[1]'')) sample_menu) = 0 \<and>
   selectedOption (generateQuestions sample_parse (Replied (Some ''[1]'')) sample_menu) = None \<and>
   lastAnswerCorrect (generateQuestions sample_parse (Replied (Some ''[1]'')) sample_menu) = None"
proof -
  have h: "sample_parse ''[1]'' = Some [sample_q1]"
    by (simp add: sample_parse_def)
  show ?thesis
    using fetch_success_reinitialises
      [where jsonText = "''[1]''" and parse = sample_parse and Q = "[sample_q1]"
         and prev = "generate_begin sample_menu"]
    by (simp add: h generateQuestions_def)
qed

text \<open>
  C5, as stated, fails. \<open>generateQuestions\<close> is called twice from the initial session; the
  second request is answered first and sets up a game with the second sample question;
  the reply to the first request arrives afterwards and replaces that game by one with
  the first sample question.
\<close>

theorem stale_reply_counterexample:
  "generate_settle sample_parse (Replied (Some ''[2]'')) (generate_begin (generate_begin initialState)) =
     \<lparr>screen = Playing, score = 0, streak = 0, questions = [sample_q2], currentIndex = 0,
      lastAnswerCorrect = None, selectedOption = None, errorMessage = []\<rparr> \<and>
   generate_settle sample_parse (Replied (Some ''[1]''))
     (generate_settle sample_parse (Replied (Some ''[2]'')) (generate_begin (generate_begin initialState))) =
     \<lparr>screen = Playing, score = 0, streak = 0, questions = [sample_q1], currentIndex = 0,
      lastAnswerCorrect = None, selectedOption = None, errorMessage = []\<rparr> \<and>
   [sample_q1] \<noteq> [sample_q2]"
  by (simp add: generate_settle_def sample_replies generate_succeeded_def generate_begin_def
      initialState_def) (simp add: sample_q1_def sample_q2_def)

text \<open>
  C5, amended. No request token exists: when \<open>generateQuestions\<close> was called a second time
  while a first request was pending, and the later request has set up the session
  \<open>later\<close>, the reply to the earlier request is applied to \<open>later\<close> like any other reply.
  A stale success starts a new game with its own questions (screen \<open>Playing\<close>, index 0,
  score 0, streak 0, nothing selected); a stale failure sets the screen to \<open>Error\<close> and
  the message and keeps the other fields of \<open>later\<close>. The reply that arrives last wins.
\<close>

theorem stale_reply_applies:
  assumes "later = generate_settle parse r2 (generate_begin (generate_begin st))"
  shows "(try_body parse r1 = Inr qs \<longrightarrow>
            generate_settle parse r1 later =
              later\<lparr>screen := Playing, questions := qs, currentIndex := 0, score := 0,
                    streak := 0, lastAnswerCorrect := None, selectedOption := None\<rparr>) \<and>
         (try_body parse r1 = Inl e \<longrightarrow>
            generate_settle parse r1 later =
              later\<lparr>screen := Error, errorMessage := failureMessage\<rparr>)"
  by (simp add: generate_settle_def generate_succeeded_def generate_failed_def)

text \<open>The run of the counterexample, and the same run with the first request failing.\<close>

theorem stale_reply_applies_witness:
  "generate_settle sample_parse (Replied (Some ''[1]''))
     (generate_settle sample_parse (Replied (Some ''[2]'')) (generate_begin (generate_begin initialState))) =
     \<lparr>screen = Playing, score = 0, streak = 0, questions = [sample_q1], currentIndex = 0,
      lastAnswerCorrect = None, selectedOption = None, errorMessage = []\<rparr> \<and>
   generate_settle sample_parse Rejected
     (generate_settle sample_parse (Replied (Some ''[2]'')) (generate_begin (generate_begin initialState))) =
     \<lparr>screen = Error, score = 0, streak = 0, questions = [sample_q2], currentIndex = 0,
      lastAnswerCorrect = None, selectedOption = None, errorMessage = failureMessage\<rparr>"
proof -
  have l: "generate_settle sample_parse (Replied (Some ''[2]'')) (generate_begin (generate_begin initialState)) =
      \<lparr>screen = Playing, score = 0, streak = 0, questions = [sample_q2], currentIndex = 0,
       lastAnswerCorrect = None, selectedOption = None, errorMessage = []\<rparr>"
    by (simp add: generate_settle_def sample_replies generate_succeeded_def generate_begin_def
        initialState_def)
  have f: "try_body sample_parse Rejected = Inl RequestFailed"
    by (simp add: try_body_def)
  show ?thesis
    using stale_reply_applies
        [OF refl, where parse = sample_parse and ?r1.0 = "Replied (Some ''[1]'')"
           and qs = "[sample_q1]" and ?r2.0 = "Replied (Some ''[2]'')" and st = initialState]
      stale_reply_applies
        [OF refl, where parse = sample_parse and ?r1.0 = Rejected and e = RequestFailed
           and ?r2.0 = "Replied (Some ''[2]'')" and st = initialState]
    by (simp add: sample_replies f l)
qed

subsection \<open>The empty option\<close>

text \<open>
  C10. The lock of \<open>handleAnswer\<close> is a truthiness test: the call is ignored exactly when
  \<open>selectedOption\<close> is a non-empty string. When \<open>selectedOption\<close> is the empty string, as
  it is after the empty option was chosen, a call is processed like a first answer to the
  current question: it queues the answer updater, which sets \<open>score\<close>, \<open>streak\<close>,
  \<open>selectedOption\<close> and \<open>lastAnswerCorrect\<close>, and starts a timer.
\<close>

theorem empty_selection_not_locked:
  "(handleAnswer st opt = Inr no_effects \<longleftrightarrow> (\<exists>s. selectedOption st = Some s \<and> s \<noteq> [])) \<and>
   (selectedOption st = Some [] \<longrightarrow> current_question st = Some q \<longrightarrow>
      answer st opt =
        Inr (answered opt (opt = zhuyin q) st, [(if opt = zhuyin q then 1500 else 2500, st)]))"
proof -
  have "truthy (selectedOption st) \<longleftrightarrow> (\<exists>s. selectedOption st = Some s \<and> s \<noteq> [])"
    by (cases "selectedOption st") simp_all
  moreover have "handleAnswer st opt = Inr no_effects \<longleftrightarrow> truthy (selectedOption st)"
    by (simp add: handleAnswer_def no_effects_def Let_def split: option.split)
  ultimately show ?thesis
    by (simp add: answer_unlocked)
qed

text \<open>
  On the second sample question the empty distractor is chosen first (score 10,
  streak 0, selection empty); the answer \<open>e\<close> given next is accepted and changes score to
  20, streak to 1 and the selection to \<open>e\<close>.
\<close>

theorem empty_selection_not_locked_witness:
  "answer sample_second [] = Inr (sample_blank, [(2500, sample_second)]) \<and>
   selectedOption sample_blank = Some [] \<and> current_question sample_blank = Some sample_q2 \<and>
   handleAnswer sample_blank ''e'' \<noteq> Inr no_effects \<and>
   answer sample_blank ''e'' = Inr (answered ''e'' True sample_blank, [(1500, sample_blank)]) \<and>
   score sample_blank = 10 \<and> score (answered ''e'' True sample_blank) = 20 \<and>
   streak sample_blank = 0 \<and> streak (answered ''e'' True sample_blank) = 1 \<and>
   selectedOption (answered ''e'' True sample_blank) = Some ''e''"
proof -
  have h: "selectedOption sample_blank = Some []" "current_question sample_blank = Some sample_q2"
    by (simp_all add: sample_questions) (simp add: sample_blank_def)
  have a: "answered [] False sample_second = sample_blank"
    by (simp add: answered_def sample_second_def sample_blank_def)
  have t: "\<not> truthy (selectedOption sample_second)"
    by (simp add: sample_second_def)
  have z: "zhuyin sample_q2 = ''e''"
    by (simp add: sample_q2_def)
  have 1: "answer sample_second [] = Inr (sample_blank, [(2500, sample_second)])"
    using answer_unlocked [OF t sample_questions(2), of "[]"] by (simp add: a z)
  have v: "score sample_blank = 10" "score (answered ''e'' True sample_blank) = 20"
    "streak sample_blank = 0" "streak (answered ''e'' True sample_blank) = 1"
    "selectedOption (answered ''e'' True sample_blank) = Some ''e''"
    by (simp_all add: answered_def sample_blank_def)
  show ?thesis
    using empty_selection_not_locked [of sample_blank "''e''" sample_q2]
    by (simp add: h 1 v z)
qed

end
